theory Spec2Isabelle
  imports Complex_Main "HOL-Library.Word"
begin

section \<open>JavaScript values\<close>

text \<open>
  The handler of \<^verbatim>\<open>src/chat-handler.js\<close> is dynamically typed: its arguments come from
  a parsed request body and from the process environment, and the upstream answer is
  whatever \<^verbatim>\<open>JSON.parse\<close> produced. The values it can meet are modelled by one datatype.
  A JavaScript string is a sequence of UTF-16 code units.
\<close>

type_synonym code_unit = "16 word"
type_synonym jsstring = "code_unit list"

definition js :: "string \<Rightarrow> jsstring" where
  "js s = map of_char s"

text \<open>A number is only ever tested for truthiness here, so its arithmetic is left out.\<close>

datatype jsnum = NaN | Infinity bool | Finite rat

text \<open>
  An object is the list of its own properties; the first pair with a key is the
  property of that name. A property can be present and hold \<open>JUndefined\<close>.
\<close>

datatype jsval =
    JUndefined
  | JNull
  | JBool bool
  | JNum jsnum
  | JStr jsstring
  | JArr "jsval list"
  | JObj "(jsstring \<times> jsval) list"

datatype js_exn = TypeError | FetchFailed | BodyReadFailed | JsonParseFailed

text \<open>ToBoolean: what \<^verbatim>\<open>!v\<close>, \<^verbatim>\<open>v && w\<close>, \<^verbatim>\<open>v || w\<close> and \<^verbatim>\<open>if (v)\<close> test.\<close>

fun truthy :: "jsval \<Rightarrow> bool" where
  "truthy JUndefined = False"
| "truthy JNull = False"
| "truthy (JBool b) = b"
| "truthy (JNum n) = (case n of NaN \<Rightarrow> False | Infinity _ \<Rightarrow> True | Finite q \<Rightarrow> q \<noteq> 0)"
| "truthy (JStr s) = (s \<noteq> [])"
| "truthy (JArr _) = True"
| "truthy (JObj _) = True"

text \<open>
  \<^verbatim>\<open>v.name\<close>, for the names the handler reads (\<^verbatim>\<open>GEMINI_API_KEY\<close>, \<^verbatim>\<open>GEMINI_MODEL_NAME\<close>,
  \<^verbatim>\<open>sender\<close>, \<^verbatim>\<open>message\<close>, \<^verbatim>\<open>candidates\<close>, \<^verbatim>\<open>content\<close>, \<^verbatim>\<open>parts\<close>, \<^verbatim>\<open>text\<close>): none of
  them is defined on a built-in prototype, so a primitive or an array answers
  \<^verbatim>\<open>undefined\<close>, and reading a property of \<^verbatim>\<open>undefined\<close> or \<^verbatim>\<open>null\<close> throws a TypeError.
\<close>

fun get_prop :: "jsval \<Rightarrow> jsstring \<Rightarrow> js_exn + jsval" where
  "get_prop JUndefined k = Inl TypeError"
| "get_prop JNull k = Inl TypeError"
| "get_prop (JObj kvs) k = Inr (case map_of kvs k of None \<Rightarrow> JUndefined | Some v \<Rightarrow> v)"
| "get_prop (JBool b) k = Inr JUndefined"
| "get_prop (JNum n) k = Inr JUndefined"
| "get_prop (JStr s) k = Inr JUndefined"
| "get_prop (JArr xs) k = Inr JUndefined"

text \<open>
  \<^verbatim>\<open>v[0]\<close>: the first element of an array, the first code unit of a string (as a
  string of length one), the property \<^verbatim>\<open>"0"\<close> of an object.
\<close>

fun get_elem0 :: "jsval \<Rightarrow> js_exn + jsval" where
  "get_elem0 JUndefined = Inl TypeError"
| "get_elem0 JNull = Inl TypeError"
| "get_elem0 (JArr xs) = Inr (case xs of [] \<Rightarrow> JUndefined | x # _ \<Rightarrow> x)"
| "get_elem0 (JStr s) = Inr (case s of [] \<Rightarrow> JUndefined | u # _ \<Rightarrow> JStr [u])"
| "get_elem0 (JObj kvs) = Inr (case map_of kvs (js ''0'') of None \<Rightarrow> JUndefined | Some v \<Rightarrow> v)"
| "get_elem0 (JBool b) = Inr JUndefined"
| "get_elem0 (JNum n) = Inr JUndefined"

text \<open>
  \<^verbatim>\<open>String.prototype.trim\<close> removes the code units of WhiteSpace and LineTerminator
  (ECMAScript, StrWhiteSpaceChar) from both ends.
\<close>

definition js_whitespace :: "code_unit \<Rightarrow> bool" where
  "js_whitespace u =
     (u = 0x0009 \<or> u = 0x000A \<or> u = 0x000B \<or> u = 0x000C \<or> u = 0x000D \<or> u = 0x0020 \<or>
      u = 0x00A0 \<or> u = 0x1680 \<or> (0x2000 \<le> u \<and> u \<le> 0x200A) \<or> u = 0x2028 \<or> u = 0x2029 \<or>
      u = 0x202F \<or> u = 0x205F \<or> u = 0x3000 \<or> u = 0xFEFF)"

definition trim :: "jsstring \<Rightarrow> jsstring" where
  "trim s = rev (dropWhile js_whitespace (rev (dropWhile js_whitespace s)))"

text \<open>
  \<^verbatim>\<open>xs.slice(start)\<close> with no end index: a negative start counts from the end and is
  clamped at the first element, a positive one is clamped at the length.
\<close>

definition slice :: "int \<Rightarrow> 'a list \<Rightarrow> 'a list" where
  "slice start xs =
     (let len = int (length xs);
          k = (if start < 0 then max (len + start) 0 else min start len)
      in drop (nat k) xs)"

section \<open>The handler and its collaborators\<close>

record params =
  message :: jsval
  chatHistory :: jsval
  env :: jsval

record relay_result =
  success :: bool
  statusCode :: int
  reply :: "jsval option"
  error :: "jsval option"

text \<open>
  The request handed to \<^verbatim>\<open>fetch\<close>, and the \<^verbatim>\<open>Response\<close> it resolves to: reading the
  body as text or as JSON can itself fail.
\<close>

record request =
  url :: jsstring
  http_method :: jsstring
  req_headers :: "(jsstring \<times> jsstring) list"
  req_body :: jsstring

record response =
  ok :: bool
  status :: int
  text_body :: "js_exn + jsstring"
  json_body :: "js_exn + jsval"

text \<open>
  What the handler takes from the JavaScript runtime: \<^verbatim>\<open>fetch\<close>, \<^verbatim>\<open>JSON.stringify\<close> and
  the string conversion of a template literal.
\<close>

record runtime =
  fetch :: "request \<Rightarrow> js_exn + response"
  JSON_stringify :: "jsval \<Rightarrow> jsstring"
  ToString :: "jsval \<Rightarrow> jsstring"

text \<open>The effects of one invocation, in order: calls of \<^verbatim>\<open>fetch\<close> and lines of \<^verbatim>\<open>console.error\<close>.\<close>

datatype event =
    FetchCall request
  | LogApiError int jsstring
  | LogHandlerError js_exn

definition failure :: "string \<Rightarrow> int \<Rightarrow> relay_result" where
  "failure msg code =
     \<lparr>success = False, statusCode = code, reply = None, error = Some (JStr (js msg))\<rparr>"

text \<open>
  Line 27, \<^verbatim>\<open>!message || message.trim() === ""\<close>: a truthy value that is no string has
  no \<^verbatim>\<open>trim\<close> to call.
\<close>

definition message_missing :: "jsval \<Rightarrow> js_exn + bool" where
  "message_missing m =
     (if \<not> truthy m then Inr True
      else (case m of JStr s \<Rightarrow> Inr (trim s = []) | _ \<Rightarrow> Inl TypeError))"

text \<open>
  Line 39, \<^verbatim>\<open>chatHistory.slice(-10)\<close>, and the sequence the \<^verbatim>\<open>for ... of\<close> loop walks. A string has a
  \<^verbatim>\<open>slice\<close> too, and the loop then walks its characters (here one code unit each; the
  loop only reads \<^verbatim>\<open>sender\<close> of them, which no string has). Any other value has no
  \<^verbatim>\<open>slice\<close> to call.
\<close>

definition limitedHistory :: "jsval \<Rightarrow> js_exn + jsval list" where
  "limitedHistory h =
     (case h of
        JArr xs \<Rightarrow> Inr (slice (- 10) xs)
      | JStr s \<Rightarrow> Inr (map (\<lambda>u. JStr [u]) (slice (- 10) s))
      | _ \<Rightarrow> Inl TypeError)"

definition content_entry :: "jsstring \<Rightarrow> jsval \<Rightarrow> jsval" where
  "content_entry role txt =
     JObj [(js ''role'', JStr role), (js ''parts'', JArr [JObj [(js ''text'', txt)]])]"

definition history_entry :: "jsval \<Rightarrow> jsval \<Rightarrow> jsval" where
  "history_entry sender msg =
     content_entry (if sender = JStr (js ''user'') then js ''user'' else js ''model'') msg"

text \<open>
  Lines 40 to 47: the loop over the limited history, \<open>contents\<close> being the array built so
  far. The test \<^verbatim>\<open>chat.sender && chat.message\<close> reads \<^verbatim>\<open>message\<close> only under a truthy
  \<^verbatim>\<open>sender\<close>.
\<close>

fun push_history :: "jsval list \<Rightarrow> jsval list \<Rightarrow> js_exn + jsval list" where
  "push_history contents [] = Inr contents"
| "push_history contents (chat # rest) =
     (case get_prop chat (js ''sender'') of
        Inl e \<Rightarrow> Inl e
      | Inr sender \<Rightarrow>
          if \<not> truthy sender then push_history contents rest
          else (case get_prop chat (js ''message'') of
                  Inl e \<Rightarrow> Inl e
                | Inr msg \<Rightarrow>
                    if truthy msg then push_history (contents @ [history_entry sender msg]) rest
                    else push_history contents rest))"

text \<open>Lines 36 to 53: the history, then the current message.\<close>

definition build_contents :: "jsval \<Rightarrow> jsval \<Rightarrow> js_exn + jsval list" where
  "build_contents msg history =
     (case limitedHistory history of
        Inl e \<Rightarrow> Inl e
      | Inr limited \<Rightarrow>
          (case push_history [] limited of
             Inl e \<Rightarrow> Inl e
           | Inr contents \<Rightarrow> Inr (contents @ [content_entry (js ''user'') msg])))"

text \<open>Lines 56 to 74: the request body and the arguments of \<^verbatim>\<open>fetch\<close>.\<close>

definition requestBody :: "jsval list \<Rightarrow> jsval" where
  "requestBody contents =
     JObj [(js ''contents'', JArr contents),
           (js ''generationConfig'',
            JObj [(js ''maxOutputTokens'', JNum (Finite 1000)),
                  (js ''temperature'', JNum (Finite (7 / 10)))])]"

definition api_request :: "runtime \<Rightarrow> jsval \<Rightarrow> jsval \<Rightarrow> jsval list \<Rightarrow> request" where
  "api_request rt MODEL_NAME API_KEY contents =
     \<lparr>url = js ''https://generativelanguage.googleapis.com/v1beta/models/''
              @ ToString rt MODEL_NAME @ js '':generateContent?key='' @ ToString rt API_KEY,
      http_method = js ''POST'',
      req_headers = [(js ''Content-Type'', js ''application/json'')],
      req_body = JSON_stringify rt (requestBody contents)\<rparr>"

text \<open>
  Lines 89 to 110: the parsed body of a response whose \<^verbatim>\<open>ok\<close> flag is set. Each \<^verbatim>\<open>&&\<close> of
  the test stops at the first falsy operand; the reads of \<^verbatim>\<open>parts\<close>, \<^verbatim>\<open>[0]\<close> and \<^verbatim>\<open>text\<close>
  on line 97 are not guarded.
\<close>

definition extract_reply :: "jsval \<Rightarrow> js_exn + relay_result" where
  "extract_reply result =
     (case get_prop result (js ''candidates'') of
        Inl e \<Rightarrow> Inl e
      | Inr candidates \<Rightarrow>
          if \<not> truthy candidates then Inr (failure ''Invalid AI response'' 500)
          else (case get_elem0 candidates of
                  Inl e \<Rightarrow> Inl e
                | Inr candidate \<Rightarrow>
                    if \<not> truthy candidate then Inr (failure ''Invalid AI response'' 500)
                    else (case get_prop candidate (js ''content'') of
                            Inl e \<Rightarrow> Inl e
                          | Inr content \<Rightarrow>
                              if \<not> truthy content then Inr (failure ''Invalid AI response'' 500)
                              else (case get_prop content (js ''parts'') of
                                      Inl e \<Rightarrow> Inl e
                                    | Inr parts \<Rightarrow>
                                        (case get_elem0 parts of
                                           Inl e \<Rightarrow> Inl e
                                         | Inr part \<Rightarrow>
                                             (case get_prop part (js ''text'') of
                                                Inl e \<Rightarrow> Inl e
                                              | Inr txt \<Rightarrow>
                                                  Inr \<lparr>success = True, statusCode = 200,
                                                       reply = Some txt, error = None\<rparr>))))))"

text \<open>Lines 65 to 110: the call and the reading of its response.\<close>

definition call_api :: "runtime \<Rightarrow> request \<Rightarrow> event list \<times> (js_exn + relay_result)" where
  "call_api rt req =
     (case fetch rt req of
        Inl e \<Rightarrow> ([FetchCall req], Inl e)
      | Inr resp \<Rightarrow>
          if \<not> ok resp then
            (case text_body resp of
               Inl e \<Rightarrow> ([FetchCall req], Inl e)
             | Inr t \<Rightarrow>
                 ([FetchCall req, LogApiError (status resp) t],
                  Inr (failure ''AI service unavailable'' 500)))
          else
            (case json_body resp of
               Inl e \<Rightarrow> ([FetchCall req], Inl e)
             | Inr result \<Rightarrow> ([FetchCall req], extract_reply result)))"

text \<open>
  Lines 13 to 110: the body of the \<^verbatim>\<open>try\<close> block. The parameter default \<^verbatim>\<open>chatHistory = []\<close> applies to an
  absent or \<^verbatim>\<open>undefined\<close> history.
\<close>

definition try_block :: "runtime \<Rightarrow> params \<Rightarrow> event list \<times> (js_exn + relay_result)" where
  "try_block rt p =
     (case get_prop (env p) (js ''GEMINI_API_KEY'') of
        Inl e \<Rightarrow> ([], Inl e)
      | Inr API_KEY \<Rightarrow>
          (case get_prop (env p) (js ''GEMINI_MODEL_NAME'') of
             Inl e \<Rightarrow> ([], Inl e)
           | Inr name \<Rightarrow>
               let MODEL_NAME = (if truthy name then name else JStr (js ''gemini-2.0-flash-lite''))
               in if \<not> truthy API_KEY then ([], Inr (failure ''API key not configured'' 500))
                  else (case message_missing (message p) of
                          Inl e \<Rightarrow> ([], Inl e)
                        | Inr True \<Rightarrow> ([], Inr (failure ''Message is required'' 400))
                        | Inr False \<Rightarrow>
                            (case build_contents (message p)
                                    (if chatHistory p = JUndefined then JArr [] else chatHistory p) of
                               Inl e \<Rightarrow> ([], Inl e)
                             | Inr contents \<Rightarrow>
                                 call_api rt (api_request rt MODEL_NAME API_KEY contents)))))"

text \<open>
  Lines 12 to 119: whatever the \<^verbatim>\<open>try\<close> block throws is logged and answered by the
  \<^verbatim>\<open>catch\<close> block. The function returns the effects of the invocation with its result.
\<close>

definition handleGeminiChat :: "runtime \<Rightarrow> params \<Rightarrow> event list \<times> relay_result" where
  "handleGeminiChat rt p =
     (case try_block rt p of
        (evs, Inr r) \<Rightarrow> (evs, r)
      | (evs, Inl e) \<Rightarrow> (evs @ [LogHandlerError e], failure ''Internal server error'' 500))"

text \<open>Lines 141 to 162.\<close>

record http_response =
  http_statusCode :: int
  headers :: "(jsstring \<times> jsstring) list"
  body :: jsstring

definition cors_headers :: "(jsstring \<times> jsstring) list" where
  "cors_headers =
     [(js ''Access-Control-Allow-Origin'', js ''*''),
      (js ''Access-Control-Allow-Headers'', js ''Content-Type''),
      (js ''Access-Control-Allow-Methods'', js ''POST, OPTIONS''),
      (js ''Content-Type'', js ''application/json'')]"

text \<open>A property the result does not have reads as \<^verbatim>\<open>undefined\<close>.\<close>

definition read_field :: "jsval option \<Rightarrow> jsval" where
  "read_field f = (case f of None \<Rightarrow> JUndefined | Some v \<Rightarrow> v)"

definition createResponse :: "runtime \<Rightarrow> relay_result \<Rightarrow> http_response" where
  "createResponse rt result =
     (if success result then
        \<lparr>http_statusCode = statusCode result, headers = cors_headers,
         body = JSON_stringify rt (JObj [(js ''reply'', read_field (reply result))])\<rparr>
      else
        \<lparr>http_statusCode = statusCode result, headers = cors_headers,
         body = JSON_stringify rt (JObj [(js ''error'', read_field (error result))])\<rparr>)"

section \<open>Notions of the specification\<close>

text \<open>
  The claims speak of fields that are missing, of the entries that are retained and of
  the path \<^verbatim>\<open>candidates[0].content.parts[0].text\<close>. These definitions say what that
  means on values; the theorems below compare the handler with them.
\<close>

definition field_of :: "jsval \<Rightarrow> jsstring \<Rightarrow> jsval" where
  "field_of v k = (case v of JObj kvs \<Rightarrow> (case map_of kvs k of None \<Rightarrow> JUndefined | Some x \<Rightarrow> x)
                   | _ \<Rightarrow> JUndefined)"

text \<open>The unguarded read of the reply text along the expected path.\<close>

definition reply_path :: "jsval \<Rightarrow> js_exn + jsval" where
  "reply_path parsed =
     (case get_prop parsed (js ''candidates'') of Inl e \<Rightarrow> Inl e | Inr candidates \<Rightarrow>
      (case get_elem0 candidates of Inl e \<Rightarrow> Inl e | Inr candidate \<Rightarrow>
       (case get_prop candidate (js ''content'') of Inl e \<Rightarrow> Inl e | Inr content \<Rightarrow>
        (case get_prop content (js ''parts'') of Inl e \<Rightarrow> Inl e | Inr parts \<Rightarrow>
         (case get_elem0 parts of Inl e \<Rightarrow> Inl e | Inr part \<Rightarrow>
            get_prop part (js ''text''))))))"


text \<open>A history entry is retained when both of its fields hold something truthy.\<close>

definition retained :: "jsval \<Rightarrow> bool" where
  "retained chat =
     (truthy (field_of chat (js ''sender'')) \<and> truthy (field_of chat (js ''message'')))"

definition role_of :: "jsval \<Rightarrow> jsstring" where
  "role_of chat =
     (if field_of chat (js ''sender'') = JStr (js ''user'') then js ''user'' else js ''model'')"

text \<open>
  The entries of the request body, in the shape of the wire format
  \<^verbatim>\<open>{"role": ..., "parts": [{"text": ...}]}\<close>: the one a history entry stands for, and the
  one of the new message.
\<close>

definition payload_entry :: "jsval \<Rightarrow> jsval" where
  "payload_entry chat =
     JObj [(js ''role'', JStr (role_of chat)),
           (js ''parts'', JArr [JObj [(js ''text'', field_of chat (js ''message''))]])]"


definition without_field :: "jsstring \<Rightarrow> jsval \<Rightarrow> jsval" where
  "without_field k v =
     (case v of JObj kvs \<Rightarrow> JObj (filter (\<lambda>kv. fst kv \<noteq> k) kvs) | _ \<Rightarrow> v)"

definition same_or_skipped :: "jsval \<Rightarrow> jsval \<Rightarrow> bool" where
  "same_or_skipped a b =
     (a = b \<or> (a \<noteq> JUndefined \<and> a \<noteq> JNull \<and> \<not> retained a \<and>
                b \<noteq> JUndefined \<and> b \<noteq> JNull \<and> \<not> retained b))"

section \<open>Sample inputs\<close>

text \<open>
  A runtime whose \<^verbatim>\<open>fetch\<close> answers every request the same way. Its two string
  conversions are placeholders: no result below depends on what they return.
\<close>

definition sample_runtime :: "(js_exn + response) \<Rightarrow> runtime" where
  "sample_runtime answer =
     \<lparr>fetch = (\<lambda>_. answer),
      JSON_stringify = (\<lambda>_. js ''{}''),
      ToString = (\<lambda>v. case v of JStr s \<Rightarrow> s | _ \<Rightarrow> [])\<rparr>"

definition sample_env :: jsval where
  "sample_env = JObj [(js ''GEMINI_API_KEY'', JStr (js ''k3y''))]"

definition turn :: "string \<Rightarrow> string \<Rightarrow> jsval" where
  "turn who what = JObj [(js ''sender'', JStr (js who)), (js ''message'', JStr (js what))]"

text \<open>
  Upstream answers, each with the text of its body and the value the text parses to: an
  overloaded service, a failure whose body cannot be read, a reply, an empty object, a
  content without parts and a part without text.
\<close>

definition unavailable_response :: response where
  "unavailable_response =
     \<lparr>ok = False, status = 503, text_body = Inr (js ''overloaded''),
      json_body = Inl JsonParseFailed\<rparr>"

definition unreadable_response :: response where
  "unreadable_response =
     \<lparr>ok = False, status = 502, text_body = Inl BodyReadFailed,
      json_body = Inl BodyReadFailed\<rparr>"

definition hello_body :: jsval where
  "hello_body =
     JObj [(js ''candidates'',
       JArr [JObj [(js ''content'',
         JObj [(js ''parts'', JArr [JObj [(js ''text'', JStr (js ''Hello!''))]])])]])]"

definition hello_response :: response where
  "hello_response =
     \<lparr>ok = True, status = 200,
      text_body = Inr (js ''{\"candidates\":[{\"content\":{\"parts\":[{\"text\":\"Hello!\"}]}}]}''),
      json_body = Inr hello_body\<rparr>"

definition no_candidates_response :: response where
  "no_candidates_response =
     \<lparr>ok = True, status = 200, text_body = Inr (js ''{}''), json_body = Inr (JObj [])\<rparr>"

definition no_parts_body :: jsval where
  "no_parts_body =
     JObj [(js ''candidates'',
       JArr [JObj [(js ''content'', JObj [(js ''role'', JStr (js ''model''))])]])]"

definition no_parts_response :: response where
  "no_parts_response =
     \<lparr>ok = True, status = 200,
      text_body = Inr (js ''{\"candidates\":[{\"content\":{\"role\":\"model\"}}]}''),
      json_body = Inr no_parts_body\<rparr>"

definition no_text_body :: jsval where
  "no_text_body =
     JObj [(js ''candidates'',
       JArr [JObj [(js ''content'', JObj [(js ''parts'', JArr [JObj []])])]])]"

definition no_text_response :: response where
  "no_text_response =
     \<lparr>ok = True, status = 200,
      text_body = Inr (js ''{\"candidates\":[{\"content\":{\"parts\":[{}]}}]}''),
      json_body = Inr no_text_body\<rparr>"

text \<open>Ten turns of history, and a history with incomplete entries.\<close>

definition ten_turns :: "jsval list" where
  "ten_turns =
     [turn ''user'' ''q1'', turn ''bot'' ''a1'', turn ''user'' ''q2'', turn ''bot'' ''a2'',
      turn ''user'' ''q3'', turn ''bot'' ''a3'', turn ''user'' ''q4'', turn ''bot'' ''a4'',
      turn ''user'' ''q5'', turn ''bot'' ''a5'']"


definition empty_message_turn :: "(jsstring \<times> jsval) list" where
  "empty_message_turn = [(js ''sender'', JStr (js ''user'')), (js ''message'', JStr [])]"








text \<open>A first message, with no history, under a configured key; and the request it leads to.\<close>

definition hi_params :: params where
  "hi_params = \<lparr>message = JStr (js ''Hi''), chatHistory = JUndefined, env = sample_env\<rparr>"

definition hi_request :: "runtime \<Rightarrow> request" where
  "hi_request rt =
     api_request rt (JStr (js ''gemini-2.0-flash-lite'')) (JStr (js ''k3y''))
       [content_entry (js ''user'') (JStr (js ''Hi''))]"

section \<open>Reading values\<close>

lemma slice_last_ten: "slice (- 10) xs = drop (length xs - 10) xs"
  by (simp add: slice_def Let_def max_def nat_diff_distrib')

lemma trim_whitespace:
  assumes "\<forall>u\<in>set s. js_whitespace u"
  shows "trim s = []"
proof -
  from assms have h: "dropWhile js_whitespace s = []" by simp
  show ?thesis by (simp only: trim_def h rev.simps dropWhile.simps)
qed

lemma get_prop_field_of:
  "v \<noteq> JUndefined \<Longrightarrow> v \<noteq> JNull \<Longrightarrow> get_prop v k = Inr (field_of v k)"
  by (cases v) (simp_all add: field_of_def)

lemma get_prop_Inr_defined: "get_prop v k = Inr x \<Longrightarrow> v \<noteq> JUndefined \<and> v \<noteq> JNull"
  by (cases v) auto

section \<open>The effects of an invocation\<close>

lemma call_api_events:
  "fst (call_api rt req) = [FetchCall req] \<or>
   (\<exists>s t. fst (call_api rt req) = [FetchCall req, LogApiError s t])"
  by (simp add: call_api_def split: sum.splits)

lemma try_block_shape:
  "(\<exists>x. try_block rt p = ([], x)) \<or> (\<exists>req. try_block rt p = call_api rt req)"
  unfolding try_block_def Let_def
  by (simp split: sum.split bool.split) blast

lemma handler_events:
  "fst (handleGeminiChat rt p) = fst (try_block rt p) \<or>
   (\<exists>e. fst (handleGeminiChat rt p) = fst (try_block rt p) @ [LogHandlerError e])"
  by (cases "try_block rt p") (simp add: handleGeminiChat_def split: sum.splits)

lemma handler_fetch:
  assumes "FetchCall req \<in> set (fst (handleGeminiChat rt p))"
  shows "try_block rt p = call_api rt req"
proof -
  from assms have m: "FetchCall req \<in> set (fst (try_block rt p))"
    using handler_events [of rt p] by auto
  from try_block_shape [of rt p] show ?thesis
  proof
    assume "\<exists>x. try_block rt p = ([], x)"
    with m show ?thesis by auto
  next
    assume "\<exists>r. try_block rt p = call_api rt r"
    then obtain r where r: "try_block rt p = call_api rt r" by blast
    with m have "FetchCall req \<in> set (fst (call_api rt r))" by simp
    with call_api_events [of rt r] have "r = req" by auto
    with r show ?thesis by simp
  qed
qed

lemma handler_of_call:
  assumes "try_block rt p = call_api rt req" and "call_api rt req = (evs, Inr r)"
  shows "handleGeminiChat rt p = (evs, r)"
  using assms by (simp add: handleGeminiChat_def)

lemma handler_of_throw:
  assumes "try_block rt p = call_api rt req" and "call_api rt req = (evs, Inl e)"
  shows "handleGeminiChat rt p = (evs @ [LogHandlerError e], failure ''Internal server error'' 500)"
  using assms by (simp add: handleGeminiChat_def)

section \<open>Evaluation of the samples\<close>

lemmas eval_defs =
  handleGeminiChat_def try_block_def call_api_def extract_reply_def api_request_def
  build_contents_def limitedHistory_def slice_def message_missing_def trim_def
  js_whitespace_def requestBody_def content_entry_def history_entry_def failure_def
  sample_runtime_def sample_env_def turn_def js_def Let_def

lemmas sample_defs =
  hi_params_def hi_request_def unavailable_response_def hello_response_def hello_body_def
  no_candidates_response_def no_parts_response_def no_parts_body_def no_text_response_def
  no_text_body_def

lemmas path_defs = reply_path_def field_of_def

section \<open>Validation and the upstream answer\<close>

text \<open>
  Claim C4. When the environment has no \<^verbatim>\<open>GEMINI_API_KEY\<close>, or an empty one (any
  falsy value), the result is the failure "API key not configured" with status 500
  and the invocation has no effect: \<^verbatim>\<open>fetch\<close> is not called. The message is
  arbitrary, so the check comes before the validation of the message.
\<close>

theorem missing_api_key:
  assumes "get_prop (env p) (js ''GEMINI_API_KEY'') = Inr key" and "\<not> truthy key"
  shows "handleGeminiChat rt p = ([], failure ''API key not configured'' 500)"
proof -
  have "env p \<noteq> JUndefined \<and> env p \<noteq> JNull"
    using assms(1) by (rule get_prop_Inr_defined)
  then have "get_prop (env p) (js ''GEMINI_MODEL_NAME'') =
               Inr (field_of (env p) (js ''GEMINI_MODEL_NAME''))"
    by (simp add: get_prop_field_of)
  with assms show ?thesis
    by (simp add: handleGeminiChat_def try_block_def)
qed

theorem missing_api_key_witness:
  "handleGeminiChat (sample_runtime (Inr hello_response))
     \<lparr>message = JUndefined, chatHistory = JUndefined, env = JObj []\<rparr>
   = ([], failure ''API key not configured'' 500) \<and>
   handleGeminiChat (sample_runtime (Inr hello_response))
     \<lparr>message = JStr (js ''Hi''), chatHistory = JUndefined,
      env = JObj [(js ''GEMINI_API_KEY'', JStr [])]\<rparr>
   = ([], failure ''API key not configured'' 500)"
  using missing_api_key [of "\<lparr>message = JUndefined, chatHistory = JUndefined, env = JObj []\<rparr>"
      JUndefined "sample_runtime (Inr hello_response)"]
    missing_api_key [of "\<lparr>message = JStr (js ''Hi''), chatHistory = JUndefined,
      env = JObj [(js ''GEMINI_API_KEY'', JStr [])]\<rparr>" "JStr []" "sample_runtime (Inr hello_response)"]
  by simp

text \<open>
  Claim C3. Under a configured API key, a message that is absent (\<^verbatim>\<open>undefined\<close> or
  \<^verbatim>\<open>null\<close>), empty, or made of whitespace only gives the failure "Message is required"
  with status 400, and the invocation has no effect: \<^verbatim>\<open>fetch\<close> is not called.
\<close>

theorem missing_message:
  assumes "get_prop (env p) (js ''GEMINI_API_KEY'') = Inr key" and "truthy key"
    and "message p = JUndefined \<or> message p = JNull \<or>
         (\<exists>s. message p = JStr s \<and> (\<forall>u\<in>set s. js_whitespace u))"
  shows "handleGeminiChat rt p = ([], failure ''Message is required'' 400)"
proof -
  have "env p \<noteq> JUndefined \<and> env p \<noteq> JNull"
    using assms(1) by (rule get_prop_Inr_defined)
  then have "get_prop (env p) (js ''GEMINI_MODEL_NAME'') =
               Inr (field_of (env p) (js ''GEMINI_MODEL_NAME''))"
    by (simp add: get_prop_field_of)
  moreover have "message_missing (message p) = Inr True"
    using assms(3) by (auto simp: message_missing_def trim_whitespace)
  ultimately show ?thesis using assms(1,2)
    by (simp add: handleGeminiChat_def try_block_def)
qed

theorem missing_message_witness:
  "handleGeminiChat (sample_runtime (Inr hello_response))
     \<lparr>message = JStr [0x20, 0x3000, 0x0A], chatHistory = JArr [turn ''user'' ''Hi''],
      env = sample_env\<rparr>
   = ([], failure ''Message is required'' 400)"
  using missing_message [of "\<lparr>message = JStr [0x20, 0x3000, 0x0A],
      chatHistory = JArr [turn ''user'' ''Hi''], env = sample_env\<rparr>" "JStr (js ''k3y'')"
      "sample_runtime (Inr hello_response)"]
  by (simp add: sample_env_def js_whitespace_def js_def)

text \<open>
  Claim C9, as amended. When the invocation calls \<^verbatim>\<open>fetch\<close> and the response is not
  \<^verbatim>\<open>ok\<close>, the result is a failure with status 500 and no reply, whatever the upstream
  status; and when the text of the body can be read, whatever it is, the result is
  \<^verbatim>\<open>{success: false, statusCode: 500, error: "AI service unavailable"}\<close>, the upstream
  status and text reaching only the log.
\<close>

theorem upstream_failure:
  assumes "FetchCall req \<in> set (fst (handleGeminiChat rt p))"
    and "fetch rt req = Inr resp" and "\<not> ok resp"
  shows "success (snd (handleGeminiChat rt p)) = False \<and>
         statusCode (snd (handleGeminiChat rt p)) = 500 \<and>
         reply (snd (handleGeminiChat rt p)) = None \<and>
         (\<forall>t. text_body resp = Inr t \<longrightarrow>
            handleGeminiChat rt p =
              ([FetchCall req, LogApiError (status resp) t],
               \<lparr>success = False, statusCode = 500, reply = None,
                error = Some (JStr (js ''AI service unavailable''))\<rparr>))"
proof -
  have tb: "try_block rt p = call_api rt req" using assms(1) by (rule handler_fetch)
  show ?thesis
  proof (cases "text_body resp")
    case (Inl e)
    then have "call_api rt req = ([FetchCall req], Inl e)"
      using assms(2,3) by (simp add: call_api_def)
    with tb have "handleGeminiChat rt p =
        ([FetchCall req] @ [LogHandlerError e], failure ''Internal server error'' 500)"
      by (rule handler_of_throw)
    with Inl show ?thesis by (simp add: failure_def)
  next
    case (Inr t)
    then have "call_api rt req =
        ([FetchCall req, LogApiError (status resp) t],
         Inr (failure ''AI service unavailable'' 500))"
      using assms(2,3) by (simp add: call_api_def)
    with tb have "handleGeminiChat rt p =
        ([FetchCall req, LogApiError (status resp) t], failure ''AI service unavailable'' 500)"
      by (rule handler_of_call)
    with Inr show ?thesis by (simp add: failure_def)
  qed
qed

theorem upstream_failure_witness:
  "handleGeminiChat (sample_runtime (Inr unavailable_response)) hi_params =
     ([FetchCall (hi_request (sample_runtime (Inr unavailable_response))),
       LogApiError 503 (js ''overloaded'')],
      \<lparr>success = False, statusCode = 500, reply = None,
       error = Some (JStr (js ''AI service unavailable''))\<rparr>) \<and>
   success (snd (handleGeminiChat (sample_runtime (Inr unreadable_response)) hi_params)) = False \<and>
   statusCode (snd (handleGeminiChat (sample_runtime (Inr unreadable_response)) hi_params)) = 500"
proof -
  have a: "handleGeminiChat (sample_runtime (Inr unavailable_response)) hi_params =
     ([FetchCall (hi_request (sample_runtime (Inr unavailable_response))),
       LogApiError 503 (js ''overloaded'')],
      \<lparr>success = False, statusCode = 500, reply = None,
       error = Some (JStr (js ''AI service unavailable''))\<rparr>)"
    using upstream_failure [of "hi_request (sample_runtime (Inr unavailable_response))"
      "sample_runtime (Inr unavailable_response)" hi_params unavailable_response]
    by (simp add: eval_defs sample_defs)
  have b: "success (snd (handleGeminiChat (sample_runtime (Inr unreadable_response)) hi_params)) = False \<and>
   statusCode (snd (handleGeminiChat (sample_runtime (Inr unreadable_response)) hi_params)) = 500"
    using upstream_failure [of "hi_request (sample_runtime (Inr unreadable_response))"
      "sample_runtime (Inr unreadable_response)" hi_params unreadable_response]
    by (simp add: eval_defs sample_defs unreadable_response_def)
  from a b show ?thesis by simp
qed

text \<open>
  Claim C9 as stated fails: a response that is not \<^verbatim>\<open>ok\<close> and whose body cannot be read
  makes line 80 throw, and the \<^verbatim>\<open>catch\<close> block answers "Internal server error".
\<close>

theorem unreadable_body_counterexample:
  "\<not> ok unreadable_response \<and>
   handleGeminiChat (sample_runtime (Inr unreadable_response)) hi_params =
     ([FetchCall (hi_request (sample_runtime (Inr unreadable_response))),
       LogHandlerError BodyReadFailed],
      \<lparr>success = False, statusCode = 500, reply = None,
       error = Some (JStr (js ''Internal server error''))\<rparr>) \<and>
   snd (handleGeminiChat (sample_runtime (Inr unreadable_response)) hi_params) \<noteq>
     \<lparr>success = False, statusCode = 500, reply = None,
      error = Some (JStr (js ''AI service unavailable''))\<rparr>"
  by (simp add: eval_defs sample_defs unreadable_response_def)

text \<open>
  Claim C1 asks for "Invalid AI response" whenever a success status comes with a missing
  or malformed candidate structure, and for a success result exactly when the reply text
  can be extracted. The test of lines 92 to 96 answers so for a body without candidates,
  but line 97 reads \<^verbatim>\<open>parts[0].text\<close> unguarded: a content without parts is answered by the
  \<^verbatim>\<open>catch\<close> block with "Internal server error", and a first part without text gives a
  success result although no text could be extracted.
\<close>

theorem malformed_candidate_answers:
  "ok no_candidates_response \<and>
   snd (handleGeminiChat (sample_runtime (Inr no_candidates_response)) hi_params) =
     \<lparr>success = False, statusCode = 500, reply = None,
      error = Some (JStr (js ''Invalid AI response''))\<rparr> \<and>
   ok no_parts_response \<and> json_body no_parts_response = Inr no_parts_body \<and>
   reply_path no_parts_body = Inl TypeError \<and>
   snd (handleGeminiChat (sample_runtime (Inr no_parts_response)) hi_params) =
     \<lparr>success = False, statusCode = 500, reply = None,
      error = Some (JStr (js ''Internal server error''))\<rparr> \<and>
   snd (handleGeminiChat (sample_runtime (Inr no_parts_response)) hi_params) \<noteq>
     \<lparr>success = False, statusCode = 500, reply = None,
      error = Some (JStr (js ''Invalid AI response''))\<rparr> \<and>
   ok no_text_response \<and> json_body no_text_response = Inr no_text_body \<and>
   reply_path no_text_body = Inr JUndefined \<and>
   success (snd (handleGeminiChat (sample_runtime (Inr no_text_response)) hi_params)) = True"
  by (simp add: eval_defs sample_defs path_defs)

text \<open>
  Claim C2 asks that \<^verbatim>\<open>success\<close> tells which of \<^verbatim>\<open>reply\<close> and \<^verbatim>\<open>error\<close> is populated.
  A first part without \<^verbatim>\<open>text\<close> under a success status gives a result with
  \<^verbatim>\<open>success: true\<close> whose \<^verbatim>\<open>reply\<close> is \<^verbatim>\<open>undefined\<close> and which has no \<^verbatim>\<open>error\<close>.
\<close>

theorem reply_missing_on_success:
  "ok no_text_response \<and> json_body no_text_response = Inr no_text_body \<and>
   reply_path no_text_body = Inr JUndefined \<and>
   snd (handleGeminiChat (sample_runtime (Inr no_text_response)) hi_params) =
     \<lparr>success = True, statusCode = 200, reply = Some JUndefined, error = None\<rparr>"
  by (simp add: eval_defs sample_defs path_defs)

section \<open>The payload sent upstream\<close>

lemma push_history_append:
  "push_history acc (xs @ ys) =
     (case push_history acc xs of Inl e \<Rightarrow> Inl e | Inr acc' \<Rightarrow> push_history acc' ys)"
  by (induction xs arbitrary: acc) (simp_all split: sum.splits)

lemma history_entry_payload:
  "history_entry (field_of chat (js ''sender'')) (field_of chat (js ''message'')) = payload_entry chat"
  by (simp add: history_entry_def content_entry_def payload_entry_def role_of_def)

lemma push_history_step:
  assumes "chat \<noteq> JUndefined" "chat \<noteq> JNull"
  shows "push_history acc (chat # rest) =
           (if retained chat then push_history (acc @ [payload_entry chat]) rest
            else push_history acc rest)"
  using assms
  by (simp add: get_prop_field_of retained_def history_entry_payload)

lemma push_history_skip:
  assumes "chat \<noteq> JUndefined" "chat \<noteq> JNull" "\<not> retained chat"
  shows "push_history acc (chat # rest) = push_history acc rest"
  using push_history_step [OF assms(1,2), of acc rest] assms(3)
  by (simp only: if_False)







lemma handler_history_cong:
  assumes "build_contents (message p) (JArr xs) = build_contents (message p) (JArr ys)"
  shows "handleGeminiChat rt (p\<lparr>chatHistory := JArr xs\<rparr>) =
         handleGeminiChat rt (p\<lparr>chatHistory := JArr ys\<rparr>)"
proof -
  from assms have "try_block rt (p\<lparr>chatHistory := JArr xs\<rparr>) =
                   try_block rt (p\<lparr>chatHistory := JArr ys\<rparr>)"
    by (simp add: try_block_def Let_def split: sum.split bool.split)
  then show ?thesis
    by (simp add: handleGeminiChat_def)
qed

text \<open>
  Claim C5. Only the last ten entries of the history count: whatever stands before
  them, the invocation has the same effects, among them the request handed to
  \<^verbatim>\<open>fetch\<close>, and the same result as with the last ten entries alone.
\<close>

theorem history_limited_to_ten:
  assumes "length recent = 10"
  shows "handleGeminiChat rt (p\<lparr>chatHistory := JArr (older @ recent)\<rparr>) =
         handleGeminiChat rt (p\<lparr>chatHistory := JArr recent\<rparr>)"
proof -
  have "slice (- 10) (older @ recent) = slice (- 10) recent"
    using assms by (simp add: slice_last_ten)
  then have "build_contents (message p) (JArr (older @ recent)) =
             build_contents (message p) (JArr recent)"
    by (simp add: build_contents_def limitedHistory_def)
  then show ?thesis by (rule handler_history_cong)
qed

theorem history_limited_to_ten_witness:
  "handleGeminiChat (sample_runtime (Inr hello_response))
     \<lparr>message = JStr (js ''Hi''),
      chatHistory = JArr ([turn ''user'' ''q0'', turn ''bot'' ''a0''] @ ten_turns),
      env = sample_env\<rparr> =
   handleGeminiChat (sample_runtime (Inr hello_response))
     \<lparr>message = JStr (js ''Hi''), chatHistory = JArr ten_turns, env = sample_env\<rparr> \<and>
   build_contents (JStr (js ''Hi'')) (JArr ([turn ''user'' ''q0'', turn ''bot'' ''a0''] @ ten_turns)) =
     Inr (map payload_entry ten_turns @ [content_entry (js ''user'') (JStr (js ''Hi''))])"
proof -
  have "length ten_turns = 10" by (simp add: ten_turns_def)
  from history_limited_to_ten [OF this, where rt = "sample_runtime (Inr hello_response)"
      and p = hi_params and older = "[turn ''user'' ''q0'', turn ''bot'' ''a0'']"]
  have "handleGeminiChat (sample_runtime (Inr hello_response))
     \<lparr>message = JStr (js ''Hi''),
      chatHistory = JArr ([turn ''user'' ''q0'', turn ''bot'' ''a0''] @ ten_turns),
      env = sample_env\<rparr> =
   handleGeminiChat (sample_runtime (Inr hello_response))
     \<lparr>message = JStr (js ''Hi''), chatHistory = JArr ten_turns, env = sample_env\<rparr>"
    by (simp add: hi_params_def)
  moreover have "build_contents (JStr (js ''Hi''))
      (JArr ([turn ''user'' ''q0'', turn ''bot'' ''a0''] @ ten_turns)) =
     Inr (map payload_entry ten_turns @ [content_entry (js ''user'') (JStr (js ''Hi''))])"
    by (simp add: eval_defs ten_turns_def payload_entry_def role_of_def field_of_def)
  ultimately show ?thesis by simp
qed









section \<open>The HTTP response\<close>

text \<open>
  Claim C8. Whatever the result, the response has the same four headers and the status
  code of the result; its body is the serialisation of the object \<^verbatim>\<open>{reply: result.reply}\<close>
  when \<^verbatim>\<open>result.success\<close> holds and of \<^verbatim>\<open>{error: result.error}\<close> otherwise, a field the result
  does not have reading as \<^verbatim>\<open>undefined\<close>.
\<close>

theorem createResponse_fixed_headers:
  "createResponse rt result =
     \<lparr>http_statusCode = statusCode result,
      headers = [(js ''Access-Control-Allow-Origin'', js ''*''),
                 (js ''Access-Control-Allow-Headers'', js ''Content-Type''),
                 (js ''Access-Control-Allow-Methods'', js ''POST, OPTIONS''),
                 (js ''Content-Type'', js ''application/json'')],
      body = JSON_stringify rt
               (JObj [if success result
                      then (js ''reply'', case reply result of None \<Rightarrow> JUndefined | Some v \<Rightarrow> v)
                      else (js ''error'', case error result of None \<Rightarrow> JUndefined | Some v \<Rightarrow> v)])\<rparr>"
  by (simp add: createResponse_def cors_headers_def read_field_def)

section \<open>Empty fields\<close>

lemma push_history_related:
  assumes "list_all2 same_or_skipped xs ys"
  shows "push_history acc xs = push_history acc ys"
  using assms
proof (induction arbitrary: acc rule: list_all2_induct)
  case Nil
  show ?case by simp
next
  case (Cons a xs b ys)
  show ?case
  proof (cases "a = b")
    case True
    with Cons.IH show ?thesis by (simp split: sum.splits)
  next
    case False
    with Cons.hyps(1) have ab: "a \<noteq> JUndefined" "a \<noteq> JNull" "\<not> retained a"
      "b \<noteq> JUndefined" "b \<noteq> JNull" "\<not> retained b"
      by (simp_all add: same_or_skipped_def)
    have "push_history acc (a # xs) = push_history acc xs"
      using ab(1-3) by (rule push_history_skip)
    moreover have "push_history acc (b # ys) = push_history acc ys"
      using ab(4-6) by (rule push_history_skip)
    ultimately show ?thesis using Cons.IH by simp
  qed
qed

lemma build_contents_related:
  assumes "list_all2 same_or_skipped xs ys"
  shows "build_contents msg (JArr xs) = build_contents msg (JArr ys)"
proof -
  have "length xs = length ys" using assms by (rule list_all2_lengthD)
  moreover have "list_all2 same_or_skipped (drop (length ys - 10) xs) (drop (length ys - 10) ys)"
    using assms by (rule list_all2_dropI)
  ultimately have "push_history [] (slice (- 10) xs) = push_history [] (slice (- 10) ys)"
    by (simp add: slice_last_ten push_history_related)
  then show ?thesis by (simp add: build_contents_def limitedHistory_def)
qed

lemma map_of_without: "map_of (filter (\<lambda>kv. fst kv \<noteq> k) kvs) k = None"
  by (induction kvs) auto

lemma falsy_field_not_retained:
  assumes "k = js ''sender'' \<or> k = js ''message''"
    and "map_of kvs k = None \<or> map_of kvs k = Some (JStr [])"
  shows "\<not> retained (JObj kvs)"
  using assms by (auto simp: retained_def field_of_def)

text \<open>
  Claim C10. A history entry whose \<^verbatim>\<open>sender\<close> or \<^verbatim>\<open>message\<close> is the empty string is
  skipped by the loop wherever it stands, and the invocation has the same effects and
  the same result as with the entry that lacks the field altogether.
\<close>

theorem empty_string_field_skipped:
  assumes "k = js ''sender'' \<or> k = js ''message''" and "map_of kvs k = Some (JStr [])"
  shows "push_history contents (pre @ JObj kvs # post) = push_history contents (pre @ post) \<and>
         handleGeminiChat rt (p\<lparr>chatHistory := JArr (pre @ JObj kvs # post)\<rparr>) =
         handleGeminiChat rt (p\<lparr>chatHistory := JArr (pre @ without_field k (JObj kvs) # post)\<rparr>)"
proof -
  have 1: "\<not> retained (JObj kvs)"
    using assms by (simp add: falsy_field_not_retained)
  have 2: "\<not> retained (without_field k (JObj kvs))"
    using assms(1) by (simp add: without_field_def falsy_field_not_retained map_of_without)
  have step: "push_history acc (JObj kvs # post) = push_history acc post" for acc
    by (rule push_history_skip) (simp_all add: 1)
  have a: "push_history contents (pre @ JObj kvs # post) = push_history contents (pre @ post)"
    by (simp only: push_history_append [of contents pre] step)
  have "same_or_skipped (JObj kvs) (without_field k (JObj kvs))"
    using 1 2 by (simp add: same_or_skipped_def without_field_def)
  moreover have "list_all2 same_or_skipped pre pre" "list_all2 same_or_skipped post post"
    by (simp_all add: list_all2_same same_or_skipped_def)
  ultimately have "list_all2 same_or_skipped (pre @ JObj kvs # post)
                     (pre @ without_field k (JObj kvs) # post)"
    by (simp add: list_all2_appendI)
  then have "build_contents (message p) (JArr (pre @ JObj kvs # post)) =
             build_contents (message p) (JArr (pre @ without_field k (JObj kvs) # post))"
    by (rule build_contents_related)
  then have b: "handleGeminiChat rt (p\<lparr>chatHistory := JArr (pre @ JObj kvs # post)\<rparr>) =
         handleGeminiChat rt (p\<lparr>chatHistory := JArr (pre @ without_field k (JObj kvs) # post)\<rparr>)"
    by (rule handler_history_cong)
  from a b show ?thesis by simp
qed

theorem empty_string_field_skipped_witness:
  "push_history [] ([turn ''user'' ''q1''] @ JObj empty_message_turn # [turn ''bot'' ''a1'']) =
     push_history [] ([turn ''user'' ''q1''] @ [turn ''bot'' ''a1'']) \<and>
   handleGeminiChat (sample_runtime (Inr hello_response))
     \<lparr>message = JStr (js ''Hi''),
      chatHistory = JArr ([turn ''user'' ''q1''] @ JObj empty_message_turn # [turn ''bot'' ''a1'']),
      env = sample_env\<rparr> =
   handleGeminiChat (sample_runtime (Inr hello_response))
     \<lparr>message = JStr (js ''Hi''),
      chatHistory = JArr ([turn ''user'' ''q1''] @
                          JObj [(js ''sender'', JStr (js ''user''))] # [turn ''bot'' ''a1'']),
      env = sample_env\<rparr>"
  using empty_string_field_skipped [where k = "js ''message''" and kvs = empty_message_turn
      and contents = "[]" and pre = "[turn ''user'' ''q1'']" and post = "[turn ''bot'' ''a1'']"
      and rt = "sample_runtime (Inr hello_response)" and p = hi_params]
  by (simp add: hi_params_def empty_message_turn_def without_field_def js_def)

end
